theory Spec2Isabelle
  imports Complex_Main "HOL-Library.Word"
begin

section \<open>Geometry: fyne.Size and fyne.Position\<close>

text \<open>
  The source builds sizes with \<^verbatim>\<open>fyne.NewSize(w, h)\<close> and positions with
  \<^verbatim>\<open>fyne.NewPos(x, y)\<close> and reads the fields \<^verbatim>\<open>Width\<close>, \<^verbatim>\<open>Height\<close>, \<^verbatim>\<open>X\<close>, \<^verbatim>\<open>Y\<close>.
  The two struct types are declared outside the file; their scalar component type stays
  the type parameter \<open>'a\<close>, and each function below asks of it only the arithmetic
  operations its source text uses. No law of arithmetic is assumed of \<open>'a\<close> beyond
  what those operations' type classes carry.
\<close>

datatype 'a Size = NewSize (Width: 'a) (Height: 'a)

datatype 'a Position = NewPos (X: 'a) (Y: 'a)

text \<open>
  Modelled from the spec: \<^verbatim>\<open>fyne.Size.IsZero\<close> is not in the file. The spec says of
  the desired size that "zero means use natural size": a size is zero when its width
  and its height both are.
\<close>

definition IsZero :: "('a::zero) Size \<Rightarrow> bool" where
  "IsZero s = (Width s = 0 \<and> Height s = 0)"

text \<open>The untyped constants of package dialog.\<close>

definition padWidth :: "'a::numeral" where
  "padWidth = 32"

definition padHeight :: "'a::numeral" where
  "padHeight = 16"

section \<open>Callbacks, events and the dialog\<close>

text \<open>
  A function value of the source is either supplied by the caller or the function
  literal that \<^verbatim>\<open>SetOnClosed\<close> builds. A caller's \<^verbatim>\<open>func(bool)\<close> is opaque here and
  is known by a number, \<open>UserCallback k\<close>; so is a caller's \<^verbatim>\<open>func()\<close>, and \<open>None\<close> is Go's
  \<^verbatim>\<open>nil\<close>. \<open>Closure closedFn originalCallback\<close> is the literal of \<^verbatim>\<open>SetOnClosed\<close> with
  the two variables it captures, \<^verbatim>\<open>closed\<close> and \<^verbatim>\<open>originalCallback\<close>.
\<close>

datatype callback = UserCallback nat | Closure "nat option" "callback option"

text \<open>
  What an operation does to the outside is the list of events it emits, oldest first:
  the calls on the popup and on the dismiss button, and the calls of the caller's
  functions (\<open>ClosedCalled h\<close> for the \<^verbatim>\<open>func()\<close> numbered \<open>h\<close>, \<open>CallbackCalled k r\<close>
  for the \<^verbatim>\<open>func(bool)\<close> numbered \<open>k\<close> called with \<open>r\<close>).
\<close>

datatype 'a event =
    PopUpShow
  | PopUpHide
  | PopUpResize "'a Size"
  | PopUpRefresh
  | ButtonSetText string
  | ClosedCalled nat
  | CallbackCalled nat bool

datatype panic = NilFunc | IndexOutOfRange

type_synonym ref = nat

text \<open>
  Modelled from the spec: \<^verbatim>\<open>widget.PopUp\<close> and \<^verbatim>\<open>widget.Button\<close> are not in the file.
  The popup is the overlay that \<^verbatim>\<open>Show\<close> makes visible, \<^verbatim>\<open>Hide\<close> makes invisible and
  \<^verbatim>\<open>Resize\<close> gives a size; its content is the container that \<^verbatim>\<open>create\<close> builds, kept as
  the container's list of objects. The button has a text.
\<close>

record 'a PopUp =
  visible :: bool
  innerSize :: "'a Size"
  Content :: "ref list"

record Button =
  Text :: string

text \<open>
  The struct \<^verbatim>\<open>dialog\<close> after \<^verbatim>\<open>create\<close> has run (the source requires it before the
  dialog is shown), so that the popup exists. Canvas objects are held by reference.
  The icon resource, the parent window and the back pointer to the layout, which no
  operation below reads, are left out.
\<close>

record 'a dialog =
  callback :: "callback option"
  title :: string
  desiredSize :: "'a Size"
  win :: "'a PopUp"
  bg :: ref
  content :: ref
  label :: ref
  dismiss :: Button

text \<open>
  Calling a function value with \<open>response\<close>. The literal of \<^verbatim>\<open>SetOnClosed\<close> calls
  \<^verbatim>\<open>closed()\<close> unguarded (a nil \<^verbatim>\<open>closed\<close> panics there) and then \<^verbatim>\<open>originalCallback\<close>
  when that is not nil. The result is the events emitted and the panic, if any.
\<close>

fun invoke :: "callback \<Rightarrow> bool \<Rightarrow> 'a event list \<times> panic option" where
  "invoke (UserCallback k) response = ([CallbackCalled k response], None)"
| "invoke (Closure closedFn originalCallback) response =
     (case closedFn of
        None \<Rightarrow> ([], Some NilFunc)
      | Some h \<Rightarrow>
          (case originalCallback of
             None \<Rightarrow> ([ClosedCalled h], None)
           | Some c \<Rightarrow>
               (case invoke c response of (es, r) \<Rightarrow> (ClosedCalled h # es, r))))"

text \<open>
  Every operation of the dialog returns the dialog after it, the events it emitted and
  the panic that ended it, if any.
\<close>

type_synonym 'a result = "'a dialog \<times> 'a event list \<times> panic option"

definition dialog_hideWithResponse :: "'a dialog \<Rightarrow> bool \<Rightarrow> 'a result" where
  "dialog_hideWithResponse d resp =
     (let d1 = d\<lparr>win := (win d)\<lparr>visible := False\<rparr>\<rparr> in
      case callback d1 of
        None \<Rightarrow> (d1, [PopUpHide], None)
      | Some c \<Rightarrow> (case invoke c resp of (es, r) \<Rightarrow> (d1, PopUpHide # es, r)))"

definition dialog_Hide :: "'a dialog \<Rightarrow> 'a result" where
  "dialog_Hide d = dialog_hideWithResponse d False"

definition dialog_Show :: "('a::zero) dialog \<Rightarrow> 'a result" where
  "dialog_Show d =
     (if \<not> IsZero (desiredSize d)
      then (d\<lparr>win := (win d)\<lparr>innerSize := desiredSize d, visible := True\<rparr>\<rparr>,
            [PopUpResize (desiredSize d), PopUpShow], None)
      else (d\<lparr>win := (win d)\<lparr>visible := True\<rparr>\<rparr>, [PopUpShow], None))"

definition dialog_Refresh :: "'a dialog \<Rightarrow> 'a result" where
  "dialog_Refresh d = (d, [PopUpRefresh], None)"

definition dialog_Resize :: "'a dialog \<Rightarrow> 'a Size \<Rightarrow> 'a result" where
  "dialog_Resize d sz =
     (d\<lparr>desiredSize := sz, win := (win d)\<lparr>innerSize := sz\<rparr>\<rparr>, [PopUpResize sz], None)"

definition dialog_SetDismissText :: "'a dialog \<Rightarrow> string \<Rightarrow> 'a result" where
  "dialog_SetDismissText d lbl =
     (d\<lparr>dismiss := (dismiss d)\<lparr>Text := lbl\<rparr>\<rparr>, [ButtonSetText lbl, PopUpRefresh], None)"

definition dialog_SetOnClosed :: "'a dialog \<Rightarrow> nat option \<Rightarrow> 'a result" where
  "dialog_SetOnClosed d closedFn =
     (let originalCallback = callback d in
      (d\<lparr>callback := Some (Closure closedFn originalCallback)\<rparr>, [], None))"

section \<open>Canvas objects and the theme\<close>

text \<open>
  Modelled from the spec: \<^verbatim>\<open>fyne.CanvasObject\<close> is an interface declared outside the
  file. An object has the position that \<^verbatim>\<open>Move\<close> sets and \<^verbatim>\<open>Position()\<close> returns, the
  size that \<^verbatim>\<open>Resize\<close> sets, and a known minimum size that neither changes. The source
  holds objects by pointer and the same object may be reached through the slice
  \<^verbatim>\<open>obj\<close> and through a field of the dialog, so the objects live in a store.
\<close>

record 'a CanvasObject =
  objPosition :: "'a Position"
  objSize :: "'a Size"
  objMinSize :: "'a Size"

type_synonym 'a heap = "ref \<Rightarrow> 'a CanvasObject"

definition Move :: "ref \<Rightarrow> 'a Position \<Rightarrow> 'a heap \<Rightarrow> 'a heap" where
  "Move r p h = h(r := (h r)\<lparr>objPosition := p\<rparr>)"

definition Resize :: "ref \<Rightarrow> 'a Size \<Rightarrow> 'a heap \<Rightarrow> 'a heap" where
  "Resize r s h = h(r := (h r)\<lparr>objSize := s\<rparr>)"

definition MinSize :: "'a heap \<Rightarrow> ref \<Rightarrow> 'a Size" where
  "MinSize h r = objMinSize (h r)"

definition Position :: "'a heap \<Rightarrow> ref \<Rightarrow> 'a Position" where
  "Position h r = objPosition (h r)"

text \<open>
  Package theme is outside the file: what \<^verbatim>\<open>theme.Padding()\<close> and
  \<^verbatim>\<open>theme.OverlayBackgroundColor()\<close> return is a parameter of every function that calls
  them. \<open>'c\<close> is the type of the values of \<^verbatim>\<open>color.Color\<close>.
\<close>

record ('a, 'c) theme =
  Padding :: 'a
  OverlayBackgroundColor :: 'c

text \<open>
  Modelled from the spec: \<^verbatim>\<open>fyne.Max\<close> is not in the file; the spec reads it as the
  maximum of its two arguments.
\<close>

definition fyne_Max :: "('a::ord) \<Rightarrow> 'a \<Rightarrow> 'a" where
  "fyne_Max x y = max x y"

section \<open>DialogLayout\<close>

text \<open>
  \<^verbatim>\<open>dialogLayout.Layout\<close>. The receiver's only field is the dialog, passed as \<open>d\<close>.
  Indexing the slice beyond its length panics; the background has been moved and
  resized by then, and the panic discards the store.
\<close>

definition dialogLayout_Layout ::
  "('a::{zero,numeral,minus,uminus,times,divide}, 'c) theme \<Rightarrow> 'a dialog \<Rightarrow> ref list
     \<Rightarrow> 'a Size \<Rightarrow> 'a heap \<Rightarrow> panic + 'a heap" where
  "dialogLayout_Layout th d obj sz h0 =
     (let h1 = Move (bg d) (NewPos 0 0) h0;
          h2 = Resize (bg d) sz h1
      in if length obj \<le> 3 then Inl IndexOutOfRange
         else
           let btnMin = MinSize h2 (obj ! 3);
               iconHeight = padHeight * 2 + Height (MinSize h2 (label d)) * 2 - Padding th;
               h3 = Resize (obj ! 0) (NewSize iconHeight iconHeight) h2;
               h4 = Move (obj ! 0) (NewPos (Width sz - iconHeight + Padding th) (- Padding th)) h3;
               h5 = Resize (obj ! 3) btnMin h4;
               h6 = Move (obj ! 3)
                      (NewPos (Width sz div 2 - (Width btnMin div 2))
                              (Height sz - padHeight - Height btnMin)) h5;
               contentStart = Y (Position h6 (label d)) + Height (MinSize h6 (label d)) + padHeight;
               contentEnd = Y (Position h6 (obj ! 3)) - Padding th;
               h7 = Move (obj ! 2)
                      (NewPos (padWidth div 2) (Height (MinSize h6 (label d)) + padHeight)) h6;
               h8 = Resize (obj ! 2) (NewSize (Width sz - padWidth) (contentEnd - contentStart)) h7
           in Inr h8)"

text \<open>\<^verbatim>\<open>dialogLayout.MinSize\<close>, which reads \<^verbatim>\<open>obj[2]\<close>, \<^verbatim>\<open>obj[3]\<close> and \<^verbatim>\<open>obj[4]\<close> in turn.\<close>

definition dialogLayout_MinSize ::
  "('a::{numeral,times,ord}, 'c) theme \<Rightarrow> 'a dialog \<Rightarrow> ref list \<Rightarrow> 'a heap \<Rightarrow> panic + 'a Size" where
  "dialogLayout_MinSize th d obj h =
     (if length obj \<le> 2 then Inl IndexOutOfRange
      else
        let contentMin = MinSize h (obj ! 2) in
        if length obj \<le> 3 then Inl IndexOutOfRange
        else
          let btnMin = MinSize h (obj ! 3) in
          if length obj \<le> 4 then Inl IndexOutOfRange
          else
            let width = fyne_Max (fyne_Max (Width contentMin) (Width btnMin))
                          (Width (MinSize h (obj ! 4))) + padWidth;
                height = Height contentMin + Height btnMin + Height (MinSize h (label d))
                           + Padding th + padHeight * 2
            in Inr (NewSize width height))"

text \<open>
  Modelled from the spec: \<^verbatim>\<open>widget.PopUp.MinSize\<close> and the container's \<^verbatim>\<open>MinSize\<close> are
  not in the file. The spec has the dialog's minimum size be the one "per the layout
  algorithm": the popup answers with the minimum size its content's layout computes
  from the content's objects.
\<close>

definition PopUp_MinSize ::
  "('a::{numeral,times,ord}, 'c) theme \<Rightarrow> 'a dialog \<Rightarrow> 'a PopUp \<Rightarrow> 'a heap \<Rightarrow> panic + 'a Size" where
  "PopUp_MinSize th d w h = dialogLayout_MinSize th d (Content w) h"

definition dialog_MinSize ::
  "('a::{numeral,times,ord}, 'c) theme \<Rightarrow> 'a dialog \<Rightarrow> 'a heap \<Rightarrow> panic + 'a Size" where
  "dialog_MinSize th d h = PopUp_MinSize th d (win d) h"

text \<open>
  The container that \<^verbatim>\<open>create\<close> builds has five objects, each its own: the icon image,
  \<^verbatim>\<open>d.bg\<close>, \<^verbatim>\<open>d.content\<close>, the buttons and \<^verbatim>\<open>d.label\<close>, in this order.
\<close>

definition create_children :: "'a dialog \<Rightarrow> ref list \<Rightarrow> bool" where
  "create_children d obj =
     (length obj = 5 \<and> distinct obj \<and> obj ! 1 = bg d \<and> obj ! 2 = content d \<and> obj ! 4 = label d)"

section \<open>Sequences of calls on a dialog\<close>

text \<open>Registering the handlers of a list with \<^verbatim>\<open>SetOnClosed\<close>, first to last.\<close>

fun register_all :: "'a dialog \<Rightarrow> nat option list \<Rightarrow> 'a dialog" where
  "register_all d [] = d"
| "register_all d (closedFn # rest) = register_all (fst (dialog_SetOnClosed d closedFn)) rest"

text \<open>
  The methods of the interface \<^verbatim>\<open>Dialog\<close>, as calls a user of the interface can make.
  A sequence of calls runs until one panics; its events are those of its calls in order.
\<close>

datatype 'a dialog_call =
    CallShow
  | CallHide
  | CallSetDismissText string
  | CallSetOnClosed "nat option"
  | CallRefresh
  | CallResize "'a Size"
  | CallMinSize

fun call ::
  "('a::{zero,numeral,times,ord}, 'c) theme \<Rightarrow> 'a heap \<Rightarrow> 'a dialog \<Rightarrow> 'a dialog_call \<Rightarrow> 'a result" where
  "call th h d CallShow = dialog_Show d"
| "call th h d CallHide = dialog_Hide d"
| "call th h d (CallSetDismissText lbl) = dialog_SetDismissText d lbl"
| "call th h d (CallSetOnClosed closedFn) = dialog_SetOnClosed d closedFn"
| "call th h d CallRefresh = dialog_Refresh d"
| "call th h d (CallResize sz) = dialog_Resize d sz"
| "call th h d CallMinSize =
     (case dialog_MinSize th d h of Inl p \<Rightarrow> (d, [], Some p) | Inr _ \<Rightarrow> (d, [], None))"

fun calls ::
  "('a::{zero,numeral,times,ord}, 'c) theme \<Rightarrow> 'a heap \<Rightarrow> 'a dialog \<Rightarrow> 'a dialog_call list
     \<Rightarrow> 'a result" where
  "calls th h d [] = (d, [], None)"
| "calls th h d (x # xs) =
     (case call th h d x of
        (d1, es, Some p) \<Rightarrow> (d1, es, Some p)
      | (d1, es, None) \<Rightarrow> (case calls th h d1 xs of (d2, es2, r) \<Rightarrow> (d2, es @ es2, r)))"

section \<open>ThemedBackground\<close>

text \<open>
  \<^verbatim>\<open>color.NRGBA\<close> has four \<^verbatim>\<open>uint8\<close> fields. A \<^verbatim>\<open>color.Color\<close> held by the rectangle is
  either the value the theme returned or the \<^verbatim>\<open>NRGBA\<close> that \<^verbatim>\<open>Refresh\<close> builds.
\<close>

record NRGBA =
  color_R :: "8 word"
  color_G :: "8 word"
  color_B :: "8 word"
  color_A :: "8 word"

datatype 'c Color = ThemeColor 'c | NRGBAColor NRGBA

record 'c Rectangle =
  FillColor :: "'c Color"

record 'c themedBackgroundRenderer =
  rect :: "'c Rectangle"

text \<open>The conversion \<^verbatim>\<open>uint8(r)\<close> of an \<^verbatim>\<open>int\<close> keeps the low eight bits.\<close>

definition uint8 :: "int \<Rightarrow> 8 word" where
  "uint8 v = word_of_int v"

definition themedBackground_CreateRenderer :: "('a, 'c) theme \<Rightarrow> 'c themedBackgroundRenderer" where
  "themedBackground_CreateRenderer th = \<lparr>rect = \<lparr>FillColor = ThemeColor (OverlayBackgroundColor th)\<rparr>\<rparr>"

text \<open>
  \<^verbatim>\<open>themedBackgroundRenderer.Refresh\<close>. The helper \<^verbatim>\<open>col.ToNRGBA\<close> is outside the file and
  is the parameter \<open>ToNRGBA\<close>: it returns four \<^verbatim>\<open>int\<close>s, of which the fourth is dropped.
\<close>

definition themedBackgroundRenderer_Refresh ::
  "('c \<Rightarrow> int \<times> int \<times> int \<times> int) \<Rightarrow> ('a, 'c) theme \<Rightarrow> 'c themedBackgroundRenderer
     \<Rightarrow> 'c themedBackgroundRenderer" where
  "themedBackgroundRenderer_Refresh ToNRGBA th renderer =
     (case ToNRGBA (OverlayBackgroundColor th) of
        (r, g, b, _) \<Rightarrow>
          let bg = \<lparr>color_R = uint8 r, color_G = uint8 g, color_B = uint8 b, color_A = 230\<rparr>
          in renderer\<lparr>rect := (rect renderer)\<lparr>FillColor := NRGBAColor bg\<rparr>\<rparr>)"

section \<open>Packaging for GopherJS\<close>

record indexData =
  GopherJSFile :: string
  IsReleased :: bool
  HasGopherJS :: bool

record Packager =
  dir :: string
  name :: string
  release :: bool
  icon :: string
  exe :: string

datatype err = Err string

text \<open>
  The calls that leave the program. A file is known by its path and a response body by
  its URL: \<open>TemplateExecute f data\<close> writes the template to the file created at \<open>f\<close>,
  \<open>IoCopy f u\<close> copies the body fetched from \<open>u\<close> into the file created at \<open>f\<close>.
\<close>

datatype sysop =
    EnsureSubDir string string
  | OsCreate string
  | TemplateExecute string indexData
  | CopyFile string string
  | HttpGet string
  | IoCopy string string
  | CloseBody string
  | CloseFile string

text \<open>
  The outside world is a parameter: the path \<^verbatim>\<open>util.EnsureSubDir\<close> returns, what
  \<^verbatim>\<open>filepath.Join\<close> computes, and for every fallible call whether it fails, which may
  depend on all the calls made before it.
\<close>

record environment =
  ensureSubDir :: "string \<Rightarrow> string \<Rightarrow> string"
  Join :: "string \<Rightarrow> string \<Rightarrow> string"
  outcome :: "sysop list \<Rightarrow> sysop \<Rightarrow> err option"

definition perform :: "environment \<Rightarrow> sysop list \<Rightarrow> sysop \<Rightarrow> err option \<times> sysop list" where
  "perform E t x = (outcome E t x, t @ [x])"

definition webgl_debug_url :: string where
  "webgl_debug_url =
     ''https://raw.githubusercontent.com/KhronosGroup/WebGLDeveloperTools/b42e702487d02d5278814e0fe2e2888d234893e6/src/debug/webgl-debug.js''"

text \<open>
  \<^verbatim>\<open>Packager.packageGopherJS\<close>: the error returned and the calls made, oldest first. The
  deferred closes run when the function returns, last deferred first; what they return
  is dropped.
\<close>

definition Packager_packageGopherJS :: "environment \<Rightarrow> Packager \<Rightarrow> err option \<times> sysop list" where
  "Packager_packageGopherJS E p =
     (let appDir = ensureSubDir E (dir p) ''gopherjs'';
          t0 = [EnsureSubDir (dir p) ''gopherjs''];
          index = Join E appDir ''index.html''
      in (case perform E t0 (OsCreate index) of
            (Some e, t1) \<Rightarrow> (Some e, t1)
          | (None, t1) \<Rightarrow>
      (let tplData = \<lparr>GopherJSFile = name p, IsReleased = release p, HasGopherJS = True\<rparr>
       in (case perform E t1 (TemplateExecute index tplData) of
             (Some e, t2) \<Rightarrow> (Some e, t2)
           | (None, t2) \<Rightarrow>
      (let iconDst = Join E appDir ''icon.png''
       in (case perform E t2 (CopyFile (icon p) iconDst) of
             (Some e, t3) \<Rightarrow> (Some e, t3)
           | (None, t3) \<Rightarrow>
      (let exeDst = Join E appDir (name p)
       in (case perform E t3 (CopyFile (exe p) exeDst) of
             (Some e, t4) \<Rightarrow> (Some e, t4)
           | (None, t4) \<Rightarrow>
      (if \<not> release p then
         (case perform E t4 (HttpGet webgl_debug_url) of
            (Some e, t5) \<Rightarrow> (Some e, t5)
          | (None, t5) \<Rightarrow>
         (let webglDebugFile = Join E appDir ''webgl-debug.js''
          in (case perform E t5 (OsCreate webglDebugFile) of
                (Some e, t6) \<Rightarrow> (Some e, t6 @ [CloseBody webgl_debug_url])
              | (None, t6) \<Rightarrow>
                (case perform E t6 (IoCopy webglDebugFile webgl_debug_url) of
                   (e, t7) \<Rightarrow> (e, t7 @ [CloseFile webglDebugFile, CloseBody webgl_debug_url])))))
       else (None, t4))))))))))"

text \<open>
  The spec's words, for comparison with the source: the routine writes "an HTML entry
  file (templated), a copied icon file, a copied executable, and (in non-release mode) a
  downloaded debug script, all under a fixed subdirectory name", and a failure "aborts
  the whole operation immediately". \<open>planned_steps\<close> are the fallible steps in the
  order of the source; \<open>until_first_error\<close> takes steps one by one and stops at the
  first that fails, returning its error.
\<close>

definition planned_steps :: "environment \<Rightarrow> Packager \<Rightarrow> sysop list" where
  "planned_steps E p =
     (let appDir = ensureSubDir E (dir p) ''gopherjs'' in
      [OsCreate (Join E appDir ''index.html''),
       TemplateExecute (Join E appDir ''index.html'')
         \<lparr>GopherJSFile = name p, IsReleased = release p, HasGopherJS = True\<rparr>,
       CopyFile (icon p) (Join E appDir ''icon.png''),
       CopyFile (exe p) (Join E appDir (name p))]
      @ (if release p then []
         else [HttpGet webgl_debug_url,
               OsCreate (Join E appDir ''webgl-debug.js''),
               IoCopy (Join E appDir ''webgl-debug.js'') webgl_debug_url]))"

fun until_first_error ::
  "(sysop list \<Rightarrow> sysop \<Rightarrow> err option) \<Rightarrow> sysop list \<Rightarrow> sysop list \<Rightarrow> err option \<times> sysop list" where
  "until_first_error out t [] = (None, t)"
| "until_first_error out t (x # xs) =
     (case out t x of
        Some e \<Rightarrow> (Some e, t @ [x])
      | None \<Rightarrow> until_first_error out (t @ [x]) xs)"

fun is_close :: "sysop \<Rightarrow> bool" where
  "is_close (CloseBody u) = True"
| "is_close (CloseFile f) = True"
| "is_close x = False"

section \<open>Concrete instances\<close>

text \<open>
  A theme with padding 4, five canvas objects at the origin whose content, buttons and
  label have the minimum sizes 120 x 40, 80 x 30 and 60 x 20, and a dialog created over
  them with a caller's callback.
\<close>

definition demo_theme :: "(real, nat) theme" where
  "demo_theme = \<lparr>Padding = 4, OverlayBackgroundColor = 7\<rparr>"

definition demo_heap :: "real heap" where
  "demo_heap r =
     \<lparr>objPosition = NewPos 0 0, objSize = NewSize 0 0,
      objMinSize =
        (if r = 2 then NewSize 120 40
         else if r = 3 then NewSize 80 30
         else if r = 4 then NewSize 60 20
         else NewSize 0 0)\<rparr>"

definition demo_dialog :: "real dialog" where
  "demo_dialog =
     \<lparr>callback = Some (UserCallback 0), title = ''Title'', desiredSize = NewSize 0 0,
      win = \<lparr>visible = True, innerSize = NewSize 0 0, Content = [0, 1, 2, 3, 4]\<rparr>,
      bg = 1, content = 2, label = 4, dismiss = \<lparr>Text = ''OK''\<rparr>\<rparr>"

definition demo_ToNRGBA :: "nat \<Rightarrow> int \<times> int \<times> int \<times> int" where
  "demo_ToNRGBA c = (18, 52, 86, 128)"

text \<open>
  A packager, and two worlds: one where every call succeeds, one where copying the
  executable fails.
\<close>

definition demo_packager :: Packager where
  "demo_packager =
     \<lparr>dir = ''out'', name = ''app.js'', release = False, icon = ''Icon.png'', exe = ''app.js''\<rparr>"

definition demo_join :: "string \<Rightarrow> string \<Rightarrow> string" where
  "demo_join a b = a @ ''/'' @ b"

definition demo_env_ok :: environment where
  "demo_env_ok = \<lparr>ensureSubDir = demo_join, Join = demo_join, outcome = (\<lambda>t x. None)\<rparr>"

definition demo_env_fail :: environment where
  "demo_env_fail =
     \<lparr>ensureSubDir = demo_join, Join = demo_join,
      outcome = (\<lambda>t x. if x = CopyFile ''app.js'' ''out/gopherjs/app.js''
                        then Some (Err ''copy failed'') else None)\<rparr>"

section \<open>The callback chain\<close>

lemma invoke_response:
  "CallbackCalled k b \<in> set (fst (invoke c r :: 'a event list \<times> panic option)) \<Longrightarrow> b = r"
proof (induction c r arbitrary: k b rule: invoke.induct)
  case (1 k' response)
  then show ?case by simp
next
  case (2 closedFn originalCallback response)
  then show ?case
    by (auto split: option.splits prod.splits)
qed

lemma hideWithResponse_unfold:
  "dialog_hideWithResponse (d :: 'a dialog) resp =
     (d\<lparr>win := (win d)\<lparr>visible := False\<rparr>\<rparr>,
      PopUpHide # (case callback d of None \<Rightarrow> []
                   | Some c \<Rightarrow> fst (invoke c resp :: 'a event list \<times> panic option)),
      (case callback d of None \<Rightarrow> None
       | Some c \<Rightarrow> snd (invoke c resp :: 'a event list \<times> panic option)))"
  by (simp add: dialog_hideWithResponse_def Let_def split: option.splits prod.splits)

lemma register_all_snoc:
  "register_all d (hs @ [h]) = fst (dialog_SetOnClosed (register_all d hs) h)"
  by (induction hs arbitrary: d) simp_all

lemma register_all_win: "win (register_all d hs) = win d"
  by (induction hs arbitrary: d) (simp_all add: dialog_SetOnClosed_def)

lemma invoke_registered:
  "(case callback (register_all (d :: 'a dialog) (map Some ks)) of
      None \<Rightarrow> ([], None)
    | Some c \<Rightarrow> (invoke c resp :: 'a event list \<times> panic option)) =
   (map ClosedCalled (rev ks)
      @ (case callback d of None \<Rightarrow> []
         | Some c \<Rightarrow> fst (invoke c resp :: 'a event list \<times> panic option)),
    (case callback d of None \<Rightarrow> None
     | Some c \<Rightarrow> snd (invoke c resp :: 'a event list \<times> panic option)))"
proof (induction ks rule: rev_induct)
  case Nil
  then show ?case by (simp split: option.splits)
next
  case (snoc k ks)
  then show ?case
    by (simp add: register_all_snoc dialog_SetOnClosed_def Let_def split: option.splits prod.splits)
qed

text \<open>
  Registering a nil handler is accepted by \<^verbatim>\<open>SetOnClosed\<close>; the next close then panics
  before the callback stored earlier is reached. The statement about registered
  handlers below is therefore about handlers that are functions.
\<close>

lemma SetOnClosed_nil_panics:
  "dialog_hideWithResponse (fst (dialog_SetOnClosed d None)) resp =
     ((fst (dialog_SetOnClosed d None))\<lparr>win := (win d)\<lparr>visible := False\<rparr>\<rparr>,
      [PopUpHide], Some NilFunc)"
  by (simp add: dialog_hideWithResponse_def dialog_SetOnClosed_def Let_def)

text \<open>
  C1: \<^verbatim>\<open>Hide()\<close> first makes the popup invisible and then calls the stored callback once,
  with \<open>False\<close>: for a caller's callback \<open>k\<close> the events are exactly the hide followed by
  one call of \<open>k\<close> with \<open>False\<close>, and for any stored function value they are the hide
  followed by what one call of it with \<open>False\<close> emits. With no callback stored, the
  hide is the only event.
\<close>

theorem dialog_Hide_callback_once:
  "(callback d = None \<longrightarrow>
      dialog_Hide d = (d\<lparr>win := (win d)\<lparr>visible := False\<rparr>\<rparr>, [PopUpHide], None))
   \<and> (\<forall>k. callback d = Some (UserCallback k) \<longrightarrow>
      dialog_Hide d =
        (d\<lparr>win := (win d)\<lparr>visible := False\<rparr>\<rparr>, [PopUpHide, CallbackCalled k False], None))
   \<and> (\<forall>c es r. callback d = Some c \<longrightarrow> invoke c False = (es, r) \<longrightarrow>
      dialog_Hide d = (d\<lparr>win := (win d)\<lparr>visible := False\<rparr>\<rparr>, PopUpHide # es, r))"
  by (simp add: dialog_Hide_def dialog_hideWithResponse_def Let_def)

theorem dialog_Hide_callback_once_witness:
  "callback demo_dialog = Some (UserCallback 0)
   \<and> dialog_Hide demo_dialog =
       (demo_dialog\<lparr>win := (win demo_dialog)\<lparr>visible := False\<rparr>\<rparr>,
        [PopUpHide, CallbackCalled 0 False], None)
   \<and> callback (demo_dialog\<lparr>callback := None\<rparr>) = None
   \<and> dialog_Hide (demo_dialog\<lparr>callback := None\<rparr>) =
       (demo_dialog\<lparr>callback := None, win := (win demo_dialog)\<lparr>visible := False\<rparr>\<rparr>,
        [PopUpHide], None)"
proof -
  have c: "callback demo_dialog = Some (UserCallback 0)"
    by (simp add: demo_dialog_def)
  have n: "callback (demo_dialog\<lparr>callback := None\<rparr>) = None"
    by simp
  from dialog_Hide_callback_once [of demo_dialog] c
  have "dialog_Hide demo_dialog =
       (demo_dialog\<lparr>win := (win demo_dialog)\<lparr>visible := False\<rparr>\<rparr>,
        [PopUpHide, CallbackCalled 0 False], None)"
    by blast
  moreover from dialog_Hide_callback_once [of "demo_dialog\<lparr>callback := None\<rparr>"] n
  have "dialog_Hide (demo_dialog\<lparr>callback := None\<rparr>) =
       (demo_dialog\<lparr>callback := None, win := (win demo_dialog)\<lparr>visible := False\<rparr>\<rparr>,
        [PopUpHide], None)"
    by simp
  ultimately show ?thesis using c n by blast
qed

text \<open>
  C2: after the handlers \<open>ks\<close> have been registered with \<^verbatim>\<open>SetOnClosed\<close>, first to last,
  a close emits the hide, then one call of each registered handler, the newest first,
  and then exactly what the close emitted before the registrations (\<open>es\<close>, with the
  same outcome \<open>r\<close>): the callback stored before runs after the new handlers and is
  called with the same response, and nothing more runs when none was stored.
\<close>

theorem SetOnClosed_newest_first:
  assumes "dialog_hideWithResponse d resp = (d0, PopUpHide # es, r)"
  shows "dialog_hideWithResponse (register_all d (map Some ks)) resp =
           ((register_all d (map Some ks))\<lparr>win := (win d)\<lparr>visible := False\<rparr>\<rparr>,
            PopUpHide # map ClosedCalled (rev ks) @ es, r)
         \<and> (\<forall>k. callback d = Some (UserCallback k) \<longrightarrow> es = [CallbackCalled k resp] \<and> r = None)
         \<and> (callback d = None \<longrightarrow> es = [] \<and> r = None)"
proof -
  from assms have es: "es = (case callback d of None \<Rightarrow> []
      | Some c \<Rightarrow> fst (invoke c resp :: 'a event list \<times> panic option))"
    and r: "r = (case callback d of None \<Rightarrow> None
      | Some c \<Rightarrow> snd (invoke c resp :: 'a event list \<times> panic option))"
    by (simp_all add: hideWithResponse_unfold)
  have "dialog_hideWithResponse (register_all d (map Some ks)) resp =
           ((register_all d (map Some ks))\<lparr>win := (win d)\<lparr>visible := False\<rparr>\<rparr>,
            PopUpHide # map ClosedCalled (rev ks) @ es, r)"
    using invoke_registered [where d = d and ks = ks and resp = resp]
    by (simp add: hideWithResponse_unfold register_all_win es r split: option.splits)
  moreover have "\<forall>k. callback d = Some (UserCallback k) \<longrightarrow> es = [CallbackCalled k resp] \<and> r = None"
    by (simp add: es r)
  moreover have "callback d = None \<longrightarrow> es = [] \<and> r = None"
    by (simp add: es r)
  ultimately show ?thesis by blast
qed

theorem SetOnClosed_newest_first_witness:
  "dialog_hideWithResponse demo_dialog True =
     (demo_dialog\<lparr>win := (win demo_dialog)\<lparr>visible := False\<rparr>\<rparr>,
      PopUpHide # [CallbackCalled 0 True], None)
   \<and> dialog_hideWithResponse (register_all demo_dialog (map Some [1, 2])) True =
     ((register_all demo_dialog (map Some [1, 2]))\<lparr>win := (win demo_dialog)\<lparr>visible := False\<rparr>\<rparr>,
      [PopUpHide, ClosedCalled 2, ClosedCalled 1, CallbackCalled 0 True], None)"
proof -
  have h: "dialog_hideWithResponse demo_dialog True =
     (demo_dialog\<lparr>win := (win demo_dialog)\<lparr>visible := False\<rparr>\<rparr>,
      PopUpHide # [CallbackCalled 0 True], None)"
    by (simp add: dialog_hideWithResponse_def demo_dialog_def)
  from SetOnClosed_newest_first [OF h, where ks = "[1, 2]"] h show ?thesis by simp
qed

section \<open>The layout\<close>

lemma create_children_cases:
  assumes "create_children d obj"
  obtains icon buttons where "obj = [icon, bg d, content d, buttons, label d]"
    and "icon \<noteq> bg d \<and> icon \<noteq> content d \<and> icon \<noteq> buttons \<and> icon \<noteq> label d
       \<and> bg d \<noteq> icon \<and> bg d \<noteq> content d \<and> bg d \<noteq> buttons \<and> bg d \<noteq> label d
       \<and> content d \<noteq> icon \<and> content d \<noteq> bg d \<and> content d \<noteq> buttons \<and> content d \<noteq> label d
       \<and> buttons \<noteq> icon \<and> buttons \<noteq> bg d \<and> buttons \<noteq> content d \<and> buttons \<noteq> label d
       \<and> label d \<noteq> icon \<and> label d \<noteq> bg d \<and> label d \<noteq> content d \<and> label d \<noteq> buttons"
proof -
  from assms have len: "length obj = 5" and dist: "distinct obj"
    and e1: "obj ! 1 = bg d" and e2: "obj ! 2 = content d" and e4: "obj ! 4 = label d"
    by (simp_all add: create_children_def)
  from len obtain a b c e f where obj: "obj = [a, b, c, e, f]"
    by (auto simp: length_Suc_conv eval_nat_numeral)
  with e1 e2 e4 have eq: "obj = [a, bg d, content d, e, label d]" by simp
  with dist have "distinct [a, bg d, content d, e, label d]" by simp
  then have "a \<noteq> bg d \<and> a \<noteq> content d \<and> a \<noteq> e \<and> a \<noteq> label d
       \<and> bg d \<noteq> a \<and> bg d \<noteq> content d \<and> bg d \<noteq> e \<and> bg d \<noteq> label d
       \<and> content d \<noteq> a \<and> content d \<noteq> bg d \<and> content d \<noteq> e \<and> content d \<noteq> label d
       \<and> e \<noteq> a \<and> e \<noteq> bg d \<and> e \<noteq> content d \<and> e \<noteq> label d
       \<and> label d \<noteq> a \<and> label d \<noteq> bg d \<and> label d \<noteq> content d \<and> label d \<noteq> e"
    by auto
  with eq that show thesis by blast
qed

lemmas layout_defs =
  dialogLayout_Layout_def Let_def Move_def Resize_def MinSize_def Position_def

lemma demo_children: "create_children demo_dialog [0, 1, 2, 3, 4]"
  by (simp add: create_children_def demo_dialog_def)

text \<open>
  C3: for every container size and the five children of a created dialog, \<^verbatim>\<open>Layout\<close>
  returns, and leaves the icon (\<^verbatim>\<open>obj[0]\<close>) a square of side
  \<open>padHeight * 2 + 2 * (label minimum height) - theme.Padding()\<close> at
  \<open>x = width - side + padding\<close>, \<open>y = - padding\<close>. With a label minimum height of 20 the
  side is \<open>16 * 2 + 20 * 2 - padding\<close>.
\<close>

theorem Layout_icon_square:
  assumes "create_children d obj"
  shows "\<exists>h'. dialogLayout_Layout th d obj sz h = Inr h' \<and>
           objSize (h' (obj ! 0)) =
             NewSize (padHeight * 2 + Height (MinSize h (label d)) * 2 - Padding th)
                     (padHeight * 2 + Height (MinSize h (label d)) * 2 - Padding th) \<and>
           objPosition (h' (obj ! 0)) =
             NewPos (Width sz - (padHeight * 2 + Height (MinSize h (label d)) * 2 - Padding th)
                       + Padding th)
                    (- Padding th) \<and>
           (Height (MinSize h (label d)) = 20 \<longrightarrow>
              objSize (h' (obj ! 0)) =
                NewSize (16 * 2 + 20 * 2 - Padding th) (16 * 2 + 20 * 2 - Padding th))"
proof -
  from assms obtain icon buttons where obj: "obj = [icon, bg d, content d, buttons, label d]"
    and dist: "icon \<noteq> bg d \<and> icon \<noteq> content d \<and> icon \<noteq> buttons \<and> icon \<noteq> label d
       \<and> bg d \<noteq> icon \<and> bg d \<noteq> content d \<and> bg d \<noteq> buttons \<and> bg d \<noteq> label d
       \<and> content d \<noteq> icon \<and> content d \<noteq> bg d \<and> content d \<noteq> buttons \<and> content d \<noteq> label d
       \<and> buttons \<noteq> icon \<and> buttons \<noteq> bg d \<and> buttons \<noteq> content d \<and> buttons \<noteq> label d
       \<and> label d \<noteq> icon \<and> label d \<noteq> bg d \<and> label d \<noteq> content d \<and> label d \<noteq> buttons"
    by (rule create_children_cases)
  show ?thesis using dist
    by (simp add: obj layout_defs padHeight_def)
qed

theorem Layout_icon_square_witness:
  "create_children demo_dialog [0, 1, 2, 3, 4]
   \<and> objSize (projr (dialogLayout_Layout demo_theme demo_dialog [0, 1, 2, 3, 4] (NewSize 400 300)
                       demo_heap) 0) = NewSize 68 68
   \<and> objPosition (projr (dialogLayout_Layout demo_theme demo_dialog [0, 1, 2, 3, 4] (NewSize 400 300)
                       demo_heap) 0) = NewPos 336 (- 4)"
proof -
  note c = demo_children
  from Layout_icon_square [OF c, where th = demo_theme and sz = "NewSize 400 300" and h = demo_heap]
  obtain h' where
    "dialogLayout_Layout demo_theme demo_dialog [0, 1, 2, 3, 4] (NewSize 400 300) demo_heap = Inr h'"
    and "objSize (h' 0) = NewSize 68 68" and "objPosition (h' 0) = NewPos 336 (- 4)"
    by (auto simp: demo_theme_def demo_dialog_def demo_heap_def padHeight_def MinSize_def)
  with c show ?thesis by simp
qed

text \<open>
  C4: the dialog's \<^verbatim>\<open>MinSize()\<close> is the minimum size of the layout: the width is the
  larger of the content's, the buttons' and the label's minimum width plus \<open>padWidth\<close>,
  the height is the sum of the three minimum heights, the theme padding and
  \<open>padHeight * 2\<close>.
\<close>

theorem dialog_MinSize_formula:
  assumes "create_children d (Content (win d))"
  shows "dialog_MinSize th d h =
           Inr (NewSize
                  (fyne_Max (fyne_Max (Width (MinSize h (content d)))
                                      (Width (MinSize h (Content (win d) ! 3))))
                            (Width (MinSize h (label d)))
                     + padWidth)
                  (Height (MinSize h (content d)) + Height (MinSize h (Content (win d) ! 3))
                     + Height (MinSize h (label d)) + Padding th + padHeight * 2))"
proof -
  from assms obtain icon buttons
    where obj: "Content (win d) = [icon, bg d, content d, buttons, label d]"
    by (rule create_children_cases)
  show ?thesis
    by (simp add: dialog_MinSize_def PopUp_MinSize_def dialogLayout_MinSize_def obj Let_def)
qed

theorem dialog_MinSize_formula_witness:
  "create_children demo_dialog (Content (win demo_dialog))
   \<and> dialog_MinSize demo_theme demo_dialog demo_heap = Inr (NewSize 152 126)"
proof -
  have c: "create_children demo_dialog (Content (win demo_dialog))"
    by (simp add: create_children_def demo_dialog_def)
  from dialog_MinSize_formula [OF c, where th = demo_theme and h = demo_heap] c
  show ?thesis
    by (simp add: demo_theme_def demo_dialog_def demo_heap_def padHeight_def padWidth_def
          MinSize_def fyne_Max_def)
qed

text \<open>
  What \<^verbatim>\<open>Layout\<close> does to the content (\<^verbatim>\<open>obj[2]\<close>), wherever the label is: the height of
  the content counts from the label's position, and \<^verbatim>\<open>Layout\<close> leaves the label where
  it was.
\<close>

lemma Layout_content_from_label:
  assumes "create_children d obj"
  shows "\<exists>h'. dialogLayout_Layout th d obj sz h = Inr h' \<and>
           objPosition (h' (obj ! 2)) =
             NewPos (padWidth div 2) (Height (MinSize h (label d)) + padHeight) \<and>
           objSize (h' (obj ! 2)) =
             NewSize (Width sz - padWidth)
               ((Y (objPosition (h' (obj ! 3))) - Padding th)
                 - (Y (Position h (label d)) + Height (MinSize h (label d)) + padHeight)) \<and>
           Y (objPosition (h' (obj ! 3))) = Height sz - padHeight - Height (MinSize h (obj ! 3)) \<and>
           Position h' (label d) = Position h (label d)"
proof -
  from assms obtain icon buttons where obj: "obj = [icon, bg d, content d, buttons, label d]"
    and dist: "icon \<noteq> bg d \<and> icon \<noteq> content d \<and> icon \<noteq> buttons \<and> icon \<noteq> label d
       \<and> bg d \<noteq> icon \<and> bg d \<noteq> content d \<and> bg d \<noteq> buttons \<and> bg d \<noteq> label d
       \<and> content d \<noteq> icon \<and> content d \<noteq> bg d \<and> content d \<noteq> buttons \<and> content d \<noteq> label d
       \<and> buttons \<noteq> icon \<and> buttons \<noteq> bg d \<and> buttons \<noteq> content d \<and> buttons \<noteq> label d
       \<and> label d \<noteq> icon \<and> label d \<noteq> bg d \<and> label d \<noteq> content d \<and> label d \<noteq> buttons"
    by (rule create_children_cases)
  show ?thesis using dist
    by (simp add: obj layout_defs)
qed

text \<open>
  C5: \<^verbatim>\<open>create\<close> makes the label anew, at the zero position, and nothing in the package
  moves it; \<^verbatim>\<open>Layout\<close> itself leaves it there. For every container size and the five
  children of a created dialog whose label sits at \<open>Y = 0\<close>, \<^verbatim>\<open>Layout\<close> returns and
  places the content (\<^verbatim>\<open>obj[2]\<close>) at \<open>x = padWidth / 2\<close>,
  \<open>y = label minimum height + padHeight\<close>, with the width \<open>width - padWidth\<close> and the
  height \<open>(button top - padding) - (label minimum height + padHeight)\<close>, where the
  button top is \<open>height - padHeight - buttons' minimum height\<close>; the label still sits
  at \<open>Y = 0\<close> afterwards. Of the scalar type this asks that adding to zero changes
  nothing.
\<close>

theorem Layout_content_band:
  fixes th :: "('a::{monoid_add,numeral,minus,uminus,times,divide}, 'c) theme"
  assumes "create_children d obj" and "Y (Position h (label d)) = 0"
  shows "\<exists>h'. dialogLayout_Layout th d obj sz h = Inr h' \<and>
           objPosition (h' (obj ! 2)) =
             NewPos (padWidth div 2) (Height (MinSize h (label d)) + padHeight) \<and>
           objSize (h' (obj ! 2)) =
             NewSize (Width sz - padWidth)
               ((Y (objPosition (h' (obj ! 3))) - Padding th)
                 - (Height (MinSize h (label d)) + padHeight)) \<and>
           Y (objPosition (h' (obj ! 3))) = Height sz - padHeight - Height (MinSize h (obj ! 3)) \<and>
           Y (Position h' (label d)) = 0"
proof -
  from Layout_content_from_label [OF assms(1), where th = th and sz = sz and h = h]
  obtain h' where run: "dialogLayout_Layout th d obj sz h = Inr h'"
    and pos: "objPosition (h' (obj ! 2)) =
             NewPos (padWidth div 2) (Height (MinSize h (label d)) + padHeight)"
    and siz: "objSize (h' (obj ! 2)) =
             NewSize (Width sz - padWidth)
               ((Y (objPosition (h' (obj ! 3))) - Padding th)
                 - (Y (Position h (label d)) + Height (MinSize h (label d)) + padHeight))"
    and top: "Y (objPosition (h' (obj ! 3))) =
             Height sz - padHeight - Height (MinSize h (obj ! 3))"
    and lbl: "Position h' (label d) = Position h (label d)"
    by blast
  from siz assms(2) have "objSize (h' (obj ! 2)) =
             NewSize (Width sz - padWidth)
               ((Y (objPosition (h' (obj ! 3))) - Padding th)
                 - (Height (MinSize h (label d)) + padHeight))"
    by simp
  moreover from lbl assms(2) have "Y (Position h' (label d)) = 0"
    by simp
  ultimately show ?thesis using run pos top by blast
qed

theorem Layout_content_band_witness:
  "create_children demo_dialog [0, 1, 2, 3, 4]
   \<and> Y (Position demo_heap (label demo_dialog)) = 0
   \<and> objPosition (projr (dialogLayout_Layout demo_theme demo_dialog [0, 1, 2, 3, 4] (NewSize 400 300)
                       demo_heap) 2) = NewPos 16 36
   \<and> objSize (projr (dialogLayout_Layout demo_theme demo_dialog [0, 1, 2, 3, 4] (NewSize 400 300)
                       demo_heap) 2) = NewSize 368 214
   \<and> Y (objPosition (projr (dialogLayout_Layout demo_theme demo_dialog [0, 1, 2, 3, 4]
                          (NewSize 400 300) demo_heap) 3)) = 254"
proof -
  note c = demo_children
  have z: "Y (Position demo_heap (label demo_dialog)) = 0"
    by (simp add: Position_def demo_heap_def)
  from Layout_content_band
         [OF c z, where th = demo_theme and sz = "NewSize 400 300"]
  obtain h' where
    "dialogLayout_Layout demo_theme demo_dialog [0, 1, 2, 3, 4] (NewSize 400 300) demo_heap = Inr h'"
    and "objPosition (h' 2) = NewPos 16 36" and "objSize (h' 2) = NewSize 368 214"
    and "Y (objPosition (h' 3)) = 254"
    by (auto simp: demo_theme_def demo_dialog_def demo_heap_def
          padHeight_def padWidth_def MinSize_def Position_def)
  with c z show ?thesis by simp
qed

text \<open>
  C6: for every container size and the five children of a created dialog, \<^verbatim>\<open>Layout\<close>
  returns, leaves the background at \<open>(0, 0)\<close> with the container's size, and leaves the
  buttons (\<^verbatim>\<open>obj[3]\<close>) with their own minimum size at
  \<open>x = width / 2 - (buttons' minimum width) / 2\<close>,
  \<open>y = height - padHeight - buttons' minimum height\<close>.
\<close>

theorem Layout_background_and_buttons:
  assumes "create_children d obj"
  shows "\<exists>h'. dialogLayout_Layout th d obj sz h = Inr h' \<and>
           objPosition (h' (bg d)) = NewPos 0 0 \<and>
           objSize (h' (bg d)) = sz \<and>
           objSize (h' (obj ! 3)) = MinSize h (obj ! 3) \<and>
           objPosition (h' (obj ! 3)) =
             NewPos (Width sz div 2 - Width (MinSize h (obj ! 3)) div 2)
                    (Height sz - padHeight - Height (MinSize h (obj ! 3)))"
proof -
  from assms obtain icon buttons where obj: "obj = [icon, bg d, content d, buttons, label d]"
    and dist: "icon \<noteq> bg d \<and> icon \<noteq> content d \<and> icon \<noteq> buttons \<and> icon \<noteq> label d
       \<and> bg d \<noteq> icon \<and> bg d \<noteq> content d \<and> bg d \<noteq> buttons \<and> bg d \<noteq> label d
       \<and> content d \<noteq> icon \<and> content d \<noteq> bg d \<and> content d \<noteq> buttons \<and> content d \<noteq> label d
       \<and> buttons \<noteq> icon \<and> buttons \<noteq> bg d \<and> buttons \<noteq> content d \<and> buttons \<noteq> label d
       \<and> label d \<noteq> icon \<and> label d \<noteq> bg d \<and> label d \<noteq> content d \<and> label d \<noteq> buttons"
    by (rule create_children_cases)
  show ?thesis using dist
    by (simp add: obj layout_defs)
qed

theorem Layout_background_and_buttons_witness:
  "create_children demo_dialog [0, 1, 2, 3, 4]
   \<and> objPosition (projr (dialogLayout_Layout demo_theme demo_dialog [0, 1, 2, 3, 4] (NewSize 400 300)
                       demo_heap) 1) = NewPos 0 0
   \<and> objSize (projr (dialogLayout_Layout demo_theme demo_dialog [0, 1, 2, 3, 4] (NewSize 400 300)
                       demo_heap) 1) = NewSize 400 300
   \<and> objSize (projr (dialogLayout_Layout demo_theme demo_dialog [0, 1, 2, 3, 4] (NewSize 400 300)
                       demo_heap) 3) = NewSize 80 30
   \<and> objPosition (projr (dialogLayout_Layout demo_theme demo_dialog [0, 1, 2, 3, 4] (NewSize 400 300)
                       demo_heap) 3) = NewPos 160 254"
proof -
  note c = demo_children
  from Layout_background_and_buttons
         [OF c, where th = demo_theme and sz = "NewSize 400 300" and h = demo_heap]
  obtain h' where
    "dialogLayout_Layout demo_theme demo_dialog [0, 1, 2, 3, 4] (NewSize 400 300) demo_heap = Inr h'"
    and "objPosition (h' 1) = NewPos 0 0" and "objSize (h' 1) = NewSize 400 300"
    and "objSize (h' 3) = NewSize 80 30" and "objPosition (h' 3) = NewPos 160 254"
    by (auto simp: demo_theme_def demo_dialog_def demo_heap_def padHeight_def MinSize_def)
  with c show ?thesis by simp
qed

section \<open>Showing and resizing\<close>

text \<open>
  C7: \<^verbatim>\<open>Resize(size)\<close> records the size as the desired size and resizes the popup at
  once. A \<^verbatim>\<open>Show()\<close> after it resizes the popup to that size and then shows it when
  the size is not zero, and only shows it when the size is zero. For any dialog,
  \<^verbatim>\<open>Show()\<close> resizes to the desired size first exactly when that size is not zero.
\<close>

theorem Resize_then_Show:
  "(case dialog_Resize d sz of
      (d1, es1, r1) \<Rightarrow>
        desiredSize d1 = sz \<and> innerSize (win d1) = sz \<and> es1 = [PopUpResize sz] \<and> r1 = None
        \<and> dialog_Show d1 =
            (if IsZero sz then (d1\<lparr>win := (win d1)\<lparr>visible := True\<rparr>\<rparr>, [PopUpShow], None)
             else (d1\<lparr>win := (win d1)\<lparr>innerSize := sz, visible := True\<rparr>\<rparr>,
                   [PopUpResize sz, PopUpShow], None)))
   \<and> (IsZero (desiredSize d) \<longrightarrow>
        dialog_Show d = (d\<lparr>win := (win d)\<lparr>visible := True\<rparr>\<rparr>, [PopUpShow], None))
   \<and> (\<not> IsZero (desiredSize d) \<longrightarrow>
        dialog_Show d =
          (d\<lparr>win := (win d)\<lparr>innerSize := desiredSize d, visible := True\<rparr>\<rparr>,
           [PopUpResize (desiredSize d), PopUpShow], None))"
  by (simp add: dialog_Resize_def dialog_Show_def)

theorem Resize_then_Show_witness:
  "dialog_Resize demo_dialog (NewSize 300 200) =
     (demo_dialog\<lparr>desiredSize := NewSize 300 200,
                  win := (win demo_dialog)\<lparr>innerSize := NewSize 300 200\<rparr>\<rparr>,
      [PopUpResize (NewSize 300 200)], None)
   \<and> \<not> IsZero (NewSize 300 200 :: real Size)
   \<and> dialog_Show (fst (dialog_Resize demo_dialog (NewSize 300 200))) =
     (demo_dialog\<lparr>desiredSize := NewSize 300 200,
                  win := (win demo_dialog)\<lparr>innerSize := NewSize 300 200, visible := True\<rparr>\<rparr>,
      [PopUpResize (NewSize 300 200), PopUpShow], None)
   \<and> IsZero (desiredSize demo_dialog)
   \<and> dialog_Show demo_dialog =
     (demo_dialog\<lparr>win := (win demo_dialog)\<lparr>visible := True\<rparr>\<rparr>, [PopUpShow], None)"
proof -
  have z: "IsZero (desiredSize demo_dialog)"
    by (simp add: IsZero_def demo_dialog_def)
  have nz: "\<not> IsZero (NewSize 300 200 :: real Size)"
    by (simp add: IsZero_def)
  have r: "dialog_Resize demo_dialog (NewSize 300 200) =
     (demo_dialog\<lparr>desiredSize := NewSize 300 200,
                  win := (win demo_dialog)\<lparr>innerSize := NewSize 300 200\<rparr>\<rparr>,
      [PopUpResize (NewSize 300 200)], None)"
    by (simp add: dialog_Resize_def)
  from Resize_then_Show [where d = demo_dialog and sz = "NewSize 300 200"] r nz
  have "dialog_Show (fst (dialog_Resize demo_dialog (NewSize 300 200))) =
     (demo_dialog\<lparr>desiredSize := NewSize 300 200,
                  win := (win demo_dialog)\<lparr>innerSize := NewSize 300 200, visible := True\<rparr>\<rparr>,
      [PopUpResize (NewSize 300 200), PopUpShow], None)"
    by simp
  moreover from Resize_then_Show [where d = demo_dialog and sz = "NewSize 300 200"] z
  have "dialog_Show demo_dialog =
     (demo_dialog\<lparr>win := (win demo_dialog)\<lparr>visible := True\<rparr>\<rparr>, [PopUpShow], None)"
    by blast
  ultimately show ?thesis using r nz z by blast
qed

section \<open>The themed background\<close>

text \<open>
  C8: whatever the theme's overlay colour, \<^verbatim>\<open>Refresh\<close> sets the rectangle's fill to the
  \<^verbatim>\<open>NRGBA\<close> value whose red, green and blue are the \<^verbatim>\<open>uint8\<close> conversions of the first
  three values \<^verbatim>\<open>col.ToNRGBA\<close> returns for that colour (their low eight bits) and whose
  alpha is 230; the fourth value, the colour's own alpha, does not reach the result.
\<close>

theorem Refresh_fill_color:
  assumes "ToNRGBA (OverlayBackgroundColor th) = (r, g, b, a)"
  shows "FillColor (rect (themedBackgroundRenderer_Refresh ToNRGBA th renderer)) =
           NRGBAColor \<lparr>color_R = uint8 r, color_G = uint8 g, color_B = uint8 b, color_A = 230\<rparr>
         \<and> uint (uint8 r) = r mod 256 \<and> uint (uint8 g) = g mod 256 \<and> uint (uint8 b) = b mod 256
         \<and> uint (230 :: 8 word) = 230"
  using assms
  by (simp add: themedBackgroundRenderer_Refresh_def uint8_def uint_word_of_int)

theorem Refresh_fill_color_witness:
  "demo_ToNRGBA (OverlayBackgroundColor demo_theme) = (18, 52, 86, 128)
   \<and> FillColor (rect (themedBackgroundRenderer_Refresh demo_ToNRGBA demo_theme
                        (themedBackground_CreateRenderer demo_theme))) =
       NRGBAColor \<lparr>color_R = 18, color_G = 52, color_B = 86, color_A = 230\<rparr>"
proof -
  have t: "demo_ToNRGBA (OverlayBackgroundColor demo_theme) = (18, 52, 86, 128)"
    by (simp add: demo_ToNRGBA_def)
  from Refresh_fill_color
         [where ToNRGBA = demo_ToNRGBA and th = demo_theme and r = 18 and g = 52 and b = 86
            and a = 128 and renderer = "themedBackground_CreateRenderer demo_theme"] t
  show ?thesis by (simp add: uint8_def)
qed

section \<open>Packaging\<close>

lemma until_first_error_Some:
  "until_first_error out t xs = (Some e, t') \<Longrightarrow>
     \<exists>pre x post. xs = pre @ x # post \<and> t' = t @ pre @ [x] \<and> out (t @ pre) x = Some e
       \<and> (\<forall>i<length pre. out (t @ take i pre) (pre ! i) = None)"
proof (induction xs arbitrary: t)
  case Nil
  then show ?case by simp
next
  case (Cons y ys)
  show ?case
  proof (cases "out t y")
    case None
    with Cons.prems have "until_first_error out (t @ [y]) ys = (Some e, t')" by simp
    from Cons.IH [OF this] obtain pre x post
      where ys: "ys = pre @ x # post" and t': "t' = (t @ [y]) @ pre @ [x]"
        and x: "out ((t @ [y]) @ pre) x = Some e"
        and pre: "\<forall>i<length pre. out ((t @ [y]) @ take i pre) (pre ! i) = None"
      by blast
    have "\<forall>i<length (y # pre). out (t @ take i (y # pre)) ((y # pre) ! i) = None"
    proof (intro allI impI)
      fix i
      assume i: "i < length (y # pre)"
      show "out (t @ take i (y # pre)) ((y # pre) ! i) = None"
      proof (cases i)
        case 0
        with None show ?thesis by simp
      next
        case (Suc j)
        with i pre show ?thesis by simp
      qed
    qed
    with ys t' x have "y # ys = (y # pre) @ x # post \<and> t' = t @ (y # pre) @ [x]
                 \<and> out (t @ (y # pre)) x = Some e
                 \<and> (\<forall>i<length (y # pre). out (t @ take i (y # pre)) ((y # pre) ! i) = None)"
      by simp
    then show ?thesis by blast
  next
    case (Some e')
    with Cons.prems have "e' = e" "t' = t @ [y]" by simp_all
    with Some have "y # ys = [] @ y # ys \<and> t' = t @ [] @ [y] \<and> out (t @ []) y = Some e
        \<and> (\<forall>i<length ([] :: sysop list). out (t @ take i []) ([] ! i) = None)"
      by simp
    then show ?thesis by blast
  qed
qed

lemma packageGopherJS_cases:
  "fst (Packager_packageGopherJS E p) =
     fst (until_first_error (outcome E) [EnsureSubDir (dir p) ''gopherjs''] (planned_steps E p))
   \<and> filter (\<lambda>x. \<not> is_close x) (snd (Packager_packageGopherJS E p)) =
     snd (until_first_error (outcome E) [EnsureSubDir (dir p) ''gopherjs''] (planned_steps E p))
   \<and> (fst (Packager_packageGopherJS E p) = None \<longrightarrow>
        snd (Packager_packageGopherJS E p) =
          EnsureSubDir (dir p) ''gopherjs'' # planned_steps E p
            @ (if release p then []
               else [CloseFile (Join E (ensureSubDir E (dir p) ''gopherjs'') ''webgl-debug.js''),
                     CloseBody webgl_debug_url]))
   \<and> (HttpGet webgl_debug_url \<in> set (snd (Packager_packageGopherJS E p)) \<longrightarrow> \<not> release p)"
  (is ?goal)
proof -
  let ?A = "ensureSubDir E (dir p) ''gopherjs''"
  let ?s0 = "EnsureSubDir (dir p) ''gopherjs''"
  let ?s1 = "OsCreate (Join E ?A ''index.html'')"
  let ?s2 = "TemplateExecute (Join E ?A ''index.html'')
               \<lparr>GopherJSFile = name p, IsReleased = release p, HasGopherJS = True\<rparr>"
  let ?s3 = "CopyFile (icon p) (Join E ?A ''icon.png'')"
  let ?s4 = "CopyFile (exe p) (Join E ?A (name p))"
  let ?s5 = "HttpGet webgl_debug_url"
  let ?s6 = "OsCreate (Join E ?A ''webgl-debug.js'')"
  let ?s7 = "IoCopy (Join E ?A ''webgl-debug.js'') webgl_debug_url"
  note defs = Packager_packageGopherJS_def planned_steps_def perform_def Let_def
  show ?goal
  proof (cases "outcome E [?s0] ?s1")
    case (Some e)
    then show ?thesis by (simp add: defs)
  next
    case n1: None
    show ?thesis
    proof (cases "outcome E [?s0, ?s1] ?s2")
      case (Some e)
      with n1 show ?thesis by (simp add: defs)
    next
      case n2: None
      show ?thesis
      proof (cases "outcome E [?s0, ?s1, ?s2] ?s3")
        case (Some e)
        with n1 n2 show ?thesis by (simp add: defs)
      next
        case n3: None
        show ?thesis
        proof (cases "outcome E [?s0, ?s1, ?s2, ?s3] ?s4")
          case (Some e)
          with n1 n2 n3 show ?thesis by (simp add: defs)
        next
          case n4: None
          show ?thesis
          proof (cases "release p")
            case True
            with n1 n2 n3 n4 show ?thesis by (simp add: defs)
          next
            case rel: False
            show ?thesis
            proof (cases "outcome E [?s0, ?s1, ?s2, ?s3, ?s4] ?s5")
              case (Some e)
              with n1 n2 n3 n4 rel show ?thesis by (simp add: defs)
            next
              case n5: None
              show ?thesis
              proof (cases "outcome E [?s0, ?s1, ?s2, ?s3, ?s4, ?s5] ?s6")
                case (Some e)
                with n1 n2 n3 n4 rel n5 show ?thesis by (simp add: defs)
              next
                case n6: None
                with n1 n2 n3 n4 rel n5 show ?thesis
                  by (cases "outcome E [?s0, ?s1, ?s2, ?s3, ?s4, ?s5, ?s6] ?s7") (simp_all add: defs)
              qed
            qed
          qed
        qed
      qed
    qed
  qed
qed

text \<open>
  C9: when \<^verbatim>\<open>packageGopherJS\<close> returns an error, the fallible calls it made are a
  beginning of the planned steps, each made once and in order, every one before the
  last succeeded, and the error returned is that of the last: nothing is retried and
  nothing after the failing step runs (the closes deferred by then apart). When it
  returns no error it has created and templated \<open>index.html\<close>, copied the icon to
  \<open>icon.png\<close> and the executable under its name, all under the path of the
  \<open>gopherjs\<close> subdirectory, and, when not in release mode and only then, fetched the
  debug script into \<open>webgl-debug.js\<close>. The error and the calls are those of taking
  the planned steps until the first error.
\<close>

theorem packageGopherJS_first_error:
  "(\<forall>e t. Packager_packageGopherJS E p = (Some e, t) \<longrightarrow>
      (\<exists>pre x post.
          planned_steps E p = pre @ x # post
        \<and> filter (\<lambda>y. \<not> is_close y) t = EnsureSubDir (dir p) ''gopherjs'' # pre @ [x]
        \<and> outcome E (EnsureSubDir (dir p) ''gopherjs'' # pre) x = Some e
        \<and> (\<forall>i<length pre.
              outcome E (EnsureSubDir (dir p) ''gopherjs'' # take i pre) (pre ! i) = None)))
   \<and> (\<forall>t. Packager_packageGopherJS E p = (None, t) \<longrightarrow>
        t = [EnsureSubDir (dir p) ''gopherjs'',
             OsCreate (Join E (ensureSubDir E (dir p) ''gopherjs'') ''index.html''),
             TemplateExecute (Join E (ensureSubDir E (dir p) ''gopherjs'') ''index.html'')
               \<lparr>GopherJSFile = name p, IsReleased = release p, HasGopherJS = True\<rparr>,
             CopyFile (icon p) (Join E (ensureSubDir E (dir p) ''gopherjs'') ''icon.png''),
             CopyFile (exe p) (Join E (ensureSubDir E (dir p) ''gopherjs'') (name p))]
            @ (if release p then []
               else [HttpGet webgl_debug_url,
                     OsCreate (Join E (ensureSubDir E (dir p) ''gopherjs'') ''webgl-debug.js''),
                     IoCopy (Join E (ensureSubDir E (dir p) ''gopherjs'') ''webgl-debug.js'')
                       webgl_debug_url,
                     CloseFile (Join E (ensureSubDir E (dir p) ''gopherjs'') ''webgl-debug.js''),
                     CloseBody webgl_debug_url]))
   \<and> fst (Packager_packageGopherJS E p) =
       fst (until_first_error (outcome E) [EnsureSubDir (dir p) ''gopherjs''] (planned_steps E p))
   \<and> filter (\<lambda>y. \<not> is_close y) (snd (Packager_packageGopherJS E p)) =
       snd (until_first_error (outcome E) [EnsureSubDir (dir p) ''gopherjs''] (planned_steps E p))
   \<and> (HttpGet webgl_debug_url \<in> set (snd (Packager_packageGopherJS E p)) \<longrightarrow> \<not> release p)"
proof -
  let ?t0 = "[EnsureSubDir (dir p) ''gopherjs'']"
  let ?run = "until_first_error (outcome E) ?t0 (planned_steps E p)"
  note cs = packageGopherJS_cases [of E p]
  from cs have c: "fst (Packager_packageGopherJS E p) = fst ?run"
    by (rule conjunct1)
  from cs have e: "filter (\<lambda>y. \<not> is_close y) (snd (Packager_packageGopherJS E p)) = snd ?run"
    by (rule conjunct2 [THEN conjunct1])
  from cs have ok: "fst (Packager_packageGopherJS E p) = None \<longrightarrow>
        snd (Packager_packageGopherJS E p) =
          EnsureSubDir (dir p) ''gopherjs'' # planned_steps E p
            @ (if release p then []
               else [CloseFile (Join E (ensureSubDir E (dir p) ''gopherjs'') ''webgl-debug.js''),
                     CloseBody webgl_debug_url])"
    by (rule conjunct2 [THEN conjunct2, THEN conjunct1])
  from cs have d: "HttpGet webgl_debug_url \<in> set (snd (Packager_packageGopherJS E p)) \<longrightarrow> \<not> release p"
    by (rule conjunct2 [THEN conjunct2, THEN conjunct2])
  have a: "\<forall>e t. Packager_packageGopherJS E p = (Some e, t) \<longrightarrow>
      (\<exists>pre x post.
          planned_steps E p = pre @ x # post
        \<and> filter (\<lambda>y. \<not> is_close y) t = EnsureSubDir (dir p) ''gopherjs'' # pre @ [x]
        \<and> outcome E (EnsureSubDir (dir p) ''gopherjs'' # pre) x = Some e
        \<and> (\<forall>i<length pre.
              outcome E (EnsureSubDir (dir p) ''gopherjs'' # take i pre) (pre ! i) = None))"
  proof (intro allI impI)
    fix err t
    assume r: "Packager_packageGopherJS E p = (Some err, t)"
    with c e have "?run = (Some err, filter (\<lambda>y. \<not> is_close y) t)"
      by (cases ?run) simp
    from until_first_error_Some [OF this] obtain pre x post
      where "planned_steps E p = pre @ x # post"
        and "filter (\<lambda>y. \<not> is_close y) t = ?t0 @ pre @ [x]"
        and "outcome E (?t0 @ pre) x = Some err"
        and "\<forall>i<length pre. outcome E (?t0 @ take i pre) (pre ! i) = None"
      by blast
    then have "planned_steps E p = pre @ x # post
        \<and> filter (\<lambda>y. \<not> is_close y) t = EnsureSubDir (dir p) ''gopherjs'' # pre @ [x]
        \<and> outcome E (EnsureSubDir (dir p) ''gopherjs'' # pre) x = Some err
        \<and> (\<forall>i<length pre.
              outcome E (EnsureSubDir (dir p) ''gopherjs'' # take i pre) (pre ! i) = None)"
      by simp
    then show "\<exists>pre x post.
          planned_steps E p = pre @ x # post
        \<and> filter (\<lambda>y. \<not> is_close y) t = EnsureSubDir (dir p) ''gopherjs'' # pre @ [x]
        \<and> outcome E (EnsureSubDir (dir p) ''gopherjs'' # pre) x = Some err
        \<and> (\<forall>i<length pre.
              outcome E (EnsureSubDir (dir p) ''gopherjs'' # take i pre) (pre ! i) = None)"
      by blast
  qed
  have b: "\<forall>t. Packager_packageGopherJS E p = (None, t) \<longrightarrow>
        t = [EnsureSubDir (dir p) ''gopherjs'',
             OsCreate (Join E (ensureSubDir E (dir p) ''gopherjs'') ''index.html''),
             TemplateExecute (Join E (ensureSubDir E (dir p) ''gopherjs'') ''index.html'')
               \<lparr>GopherJSFile = name p, IsReleased = release p, HasGopherJS = True\<rparr>,
             CopyFile (icon p) (Join E (ensureSubDir E (dir p) ''gopherjs'') ''icon.png''),
             CopyFile (exe p) (Join E (ensureSubDir E (dir p) ''gopherjs'') (name p))]
            @ (if release p then []
               else [HttpGet webgl_debug_url,
                     OsCreate (Join E (ensureSubDir E (dir p) ''gopherjs'') ''webgl-debug.js''),
                     IoCopy (Join E (ensureSubDir E (dir p) ''gopherjs'') ''webgl-debug.js'')
                       webgl_debug_url,
                     CloseFile (Join E (ensureSubDir E (dir p) ''gopherjs'') ''webgl-debug.js''),
                     CloseBody webgl_debug_url])"
  proof (intro allI impI)
    fix t
    assume r: "Packager_packageGopherJS E p = (None, t)"
    with ok have "t = EnsureSubDir (dir p) ''gopherjs'' # planned_steps E p
            @ (if release p then []
               else [CloseFile (Join E (ensureSubDir E (dir p) ''gopherjs'') ''webgl-debug.js''),
                     CloseBody webgl_debug_url])"
      by simp
    then show "t = [EnsureSubDir (dir p) ''gopherjs'',
             OsCreate (Join E (ensureSubDir E (dir p) ''gopherjs'') ''index.html''),
             TemplateExecute (Join E (ensureSubDir E (dir p) ''gopherjs'') ''index.html'')
               \<lparr>GopherJSFile = name p, IsReleased = release p, HasGopherJS = True\<rparr>,
             CopyFile (icon p) (Join E (ensureSubDir E (dir p) ''gopherjs'') ''icon.png''),
             CopyFile (exe p) (Join E (ensureSubDir E (dir p) ''gopherjs'') (name p))]
            @ (if release p then []
               else [HttpGet webgl_debug_url,
                     OsCreate (Join E (ensureSubDir E (dir p) ''gopherjs'') ''webgl-debug.js''),
                     IoCopy (Join E (ensureSubDir E (dir p) ''gopherjs'') ''webgl-debug.js'')
                       webgl_debug_url,
                     CloseFile (Join E (ensureSubDir E (dir p) ''gopherjs'') ''webgl-debug.js''),
                     CloseBody webgl_debug_url])"
      by (simp add: planned_steps_def Let_def)
  qed
  show ?thesis
    by (rule conjI [OF a conjI [OF b conjI [OF c conjI [OF e d]]]])
qed

theorem packageGopherJS_first_error_witness:
  "Packager_packageGopherJS demo_env_ok demo_packager =
     (None,
      [EnsureSubDir ''out'' ''gopherjs'',
       OsCreate ''out/gopherjs/index.html'',
       TemplateExecute ''out/gopherjs/index.html''
         \<lparr>GopherJSFile = ''app.js'', IsReleased = False, HasGopherJS = True\<rparr>,
       CopyFile ''Icon.png'' ''out/gopherjs/icon.png'',
       CopyFile ''app.js'' ''out/gopherjs/app.js'',
       HttpGet webgl_debug_url,
       OsCreate ''out/gopherjs/webgl-debug.js'',
       IoCopy ''out/gopherjs/webgl-debug.js'' webgl_debug_url,
       CloseFile ''out/gopherjs/webgl-debug.js'',
       CloseBody webgl_debug_url])
   \<and> Packager_packageGopherJS demo_env_fail demo_packager =
     (Some (Err ''copy failed''),
      [EnsureSubDir ''out'' ''gopherjs'',
       OsCreate ''out/gopherjs/index.html'',
       TemplateExecute ''out/gopherjs/index.html''
         \<lparr>GopherJSFile = ''app.js'', IsReleased = False, HasGopherJS = True\<rparr>,
       CopyFile ''Icon.png'' ''out/gopherjs/icon.png'',
       CopyFile ''app.js'' ''out/gopherjs/app.js''])"
proof -
  have fail: "Packager_packageGopherJS demo_env_fail demo_packager =
     (Some (Err ''copy failed''),
      [EnsureSubDir ''out'' ''gopherjs'',
       OsCreate ''out/gopherjs/index.html'',
       TemplateExecute ''out/gopherjs/index.html''
         \<lparr>GopherJSFile = ''app.js'', IsReleased = False, HasGopherJS = True\<rparr>,
       CopyFile ''Icon.png'' ''out/gopherjs/icon.png'',
       CopyFile ''app.js'' ''out/gopherjs/app.js''])"
    by (simp add: Packager_packageGopherJS_def perform_def Let_def demo_env_fail_def
          demo_packager_def demo_join_def)
  have "fst (Packager_packageGopherJS demo_env_ok demo_packager) = None"
    by (simp add: Packager_packageGopherJS_def perform_def Let_def demo_env_ok_def
          demo_packager_def)
  then have ok: "Packager_packageGopherJS demo_env_ok demo_packager =
      (None, snd (Packager_packageGopherJS demo_env_ok demo_packager))"
    by (cases "Packager_packageGopherJS demo_env_ok demo_packager") simp
  note success =
    packageGopherJS_first_error
      [of demo_env_ok demo_packager, THEN conjunct2, THEN conjunct1, rule_format]
  from success [OF ok] ok
  have "Packager_packageGopherJS demo_env_ok demo_packager =
     (None,
      [EnsureSubDir ''out'' ''gopherjs'',
       OsCreate ''out/gopherjs/index.html'',
       TemplateExecute ''out/gopherjs/index.html''
         \<lparr>GopherJSFile = ''app.js'', IsReleased = False, HasGopherJS = True\<rparr>,
       CopyFile ''Icon.png'' ''out/gopherjs/icon.png'',
       CopyFile ''app.js'' ''out/gopherjs/app.js'',
       HttpGet webgl_debug_url,
       OsCreate ''out/gopherjs/webgl-debug.js'',
       IoCopy ''out/gopherjs/webgl-debug.js'' webgl_debug_url,
       CloseFile ''out/gopherjs/webgl-debug.js'',
       CloseBody webgl_debug_url])"
    by (simp add: demo_env_ok_def demo_packager_def demo_join_def)
  with fail show ?thesis by (rule conjI [rotated])
qed

section \<open>Sequences of calls\<close>

lemma call_no_true:
  "CallbackCalled k True \<notin> set (fst (snd (call th h d x)))"
proof (cases x)
  case CallHide
  have "CallbackCalled k True \<notin> set (fst (snd (dialog_hideWithResponse d False)))"
    using invoke_response [of k True _ False]
    by (auto simp: hideWithResponse_unfold split: option.splits)
  with CallHide show ?thesis by (simp add: dialog_Hide_def)
qed (simp_all add: dialog_Show_def dialog_SetDismissText_def dialog_SetOnClosed_def
       dialog_Refresh_def dialog_Resize_def Let_def split: sum.splits)

text \<open>
  C10: whatever methods of the interface \<^verbatim>\<open>Dialog\<close> are called on a dialog, in whatever
  order and with whatever arguments, and whatever callback it stores at the start, no
  caller's \<^verbatim>\<open>func(bool)\<close> is ever called with \<open>True\<close>: the one method that closes is
  \<^verbatim>\<open>Hide\<close>, which passes \<open>False\<close>, and the function values that \<^verbatim>\<open>SetOnClosed\<close> builds
  hand the response on unchanged.
\<close>

theorem calls_never_true:
  "CallbackCalled k True \<notin> set (fst (snd (calls th h d xs)))"
proof (induction xs arbitrary: d)
  case Nil
  show ?case by simp
next
  case (Cons x xs)
  obtain d1 es p where c: "call th h d x = (d1, es, p)"
    by (cases "call th h d x") auto
  have es: "CallbackCalled k True \<notin> set es"
    using call_no_true [of k th h d x] c by simp
  show ?case
  proof (cases p)
    case None
    obtain d2 es2 r where cs: "calls th h d1 xs = (d2, es2, r)"
      by (cases "calls th h d1 xs") auto
    have "CallbackCalled k True \<notin> set es2"
      using Cons.IH [of d1] cs by simp
    with es c None cs show ?thesis by simp
  next
    case (Some q)
    with es c show ?thesis by simp
  qed
qed

theorem calls_never_true_witness:
  "fst (snd (calls demo_theme demo_heap demo_dialog
               [CallSetOnClosed (Some 1), CallResize (NewSize 300 200), CallShow, CallMinSize, CallHide,
                CallShow, CallHide])) =
     [PopUpResize (NewSize 300 200), PopUpResize (NewSize 300 200), PopUpShow,
      PopUpHide, ClosedCalled 1, CallbackCalled 0 False,
      PopUpResize (NewSize 300 200), PopUpShow,
      PopUpHide, ClosedCalled 1, CallbackCalled 0 False]
   \<and> CallbackCalled 0 True \<notin> set (fst (snd (calls demo_theme demo_heap demo_dialog
               [CallSetOnClosed (Some 1), CallResize (NewSize 300 200), CallShow, CallMinSize, CallHide,
                CallShow, CallHide])))"
  using calls_never_true [where k = 0 and th = demo_theme and h = demo_heap and d = demo_dialog
               and xs = "[CallSetOnClosed (Some 1), CallResize (NewSize 300 200), CallShow, CallMinSize, CallHide,
                CallShow, CallHide]"]
  by (simp add: dialog_SetOnClosed_def dialog_Resize_def dialog_Show_def dialog_Hide_def
        dialog_hideWithResponse_def dialog_MinSize_def PopUp_MinSize_def dialogLayout_MinSize_def
        IsZero_def demo_dialog_def Let_def)

end
